theory Spec2Isabelle
  imports Main "HOL-Library.AList" "HOL-Library.Sublist"
begin

section \<open>The development overlay of the bundler configuration\<close>

text \<open>
  The file \<^verbatim>\<open>webpack/webpack.local.config.js\<close> loads the object exported by
  \<^verbatim>\<open>webpack.base.config.js\<close>, changes it with five statements and exports it again.
  The base configuration is not part of the file, so it is the input of the model; what the
  five statements do is a function from that input to either the changed configuration or
  the exception the script dies with.
\<close>

subsection \<open>JavaScript values\<close>

text \<open>
  A value is a primitive or an object. Every object carries the list of the properties
  stored on it, in insertion order, next to what kind of object it is: a plain object
  (an object literal), an array with its elements, a regular expression with its source
  text and flags, or an instance made by \<^verbatim>\<open>new C(args)\<close> of a class defined by a library.

  Limits of the universe. The configuration is a tree: the objects the script changes
  (the configuration, its \<^verbatim>\<open>output\<close>, its \<^verbatim>\<open>module.rules\<close>) are not shared with
  another place of the configuration, as in an object literal; a change in place is then
  the same as putting the changed value back where it was read. Objects are ordinary: not
  frozen, no accessors, no proxies, and no value of the configuration is a function, so a
  property named \<^verbatim>\<open>concat\<close> or \<^verbatim>\<open>push\<close> stored on an object cannot be called. Prototypes
  are the built-in ones of the language; they have no property named \<^verbatim>\<open>output\<close>,
  \<^verbatim>\<open>plugins\<close>, \<^verbatim>\<open>module\<close> or \<^verbatim>\<open>rules\<close>, the only names the script reads. What a library
  constructor stores on a new instance is not modelled: the script never reads it.
  Numbers are never inspected; they are integers here.
\<close>

datatype jsval =
    JUndefined
  | JNull
  | JBool bool
  | JNum int
  | JStr string
  | JObj kind "(string \<times> jsval) list"
and kind =
    Plain
  | Array "jsval list"
  | RegExp string string
  | Instance string "jsval list"

text \<open>The only exception the five statements can raise.\<close>

datatype error = TypeError

text \<open>Sequencing: an exception ends the script.\<close>

definition and_then :: "error + 'a \<Rightarrow> ('a \<Rightarrow> error + 'b) \<Rightarrow> error + 'b" where
  "and_then m f = (case m of Inl e \<Rightarrow> Inl e | Inr x \<Rightarrow> f x)"

subsection \<open>Reading and writing properties\<close>

text \<open>
  \<^verbatim>\<open>v.k\<close>: reading a property of \<^verbatim>\<open>undefined\<close> or \<^verbatim>\<open>null\<close> throws a TypeError; on an
  object the stored property is returned, \<^verbatim>\<open>undefined\<close> when there is none; a boolean,
  number or string has no stored property (and its prototype none of the names read here).
\<close>

fun get_prop :: "jsval \<Rightarrow> string \<Rightarrow> error + jsval" where
  "get_prop JUndefined k = Inl TypeError"
| "get_prop JNull k = Inl TypeError"
| "get_prop (JObj kd ps) k = Inr (case map_of ps k of None \<Rightarrow> JUndefined | Some v \<Rightarrow> v)"
| "get_prop v k = Inr JUndefined"

text \<open>
  \<^verbatim>\<open>v.k = x\<close>, returning \<^verbatim>\<open>v\<close> as it is after the assignment. On \<^verbatim>\<open>undefined\<close> or
  \<^verbatim>\<open>null\<close> it throws a TypeError. On an object the property is replaced where it stands,
  or added last. The file has no \<^verbatim>\<open>'use strict'\<close> directive and is loaded as a CommonJS
  module, so an assignment to a property of a boolean, number or string is dropped
  silently.
\<close>

fun set_prop :: "jsval \<Rightarrow> string \<Rightarrow> jsval \<Rightarrow> error + jsval" where
  "set_prop JUndefined k x = Inl TypeError"
| "set_prop JNull k x = Inl TypeError"
| "set_prop (JObj kd ps) k x = Inr (JObj kd (AList.update k x ps))"
| "set_prop v k x = Inr v"

text \<open>
  The object read from property \<^verbatim>\<open>k\<close> of \<^verbatim>\<open>v\<close> was changed in place; in the tree the
  changed value takes the place of the old one. Nothing is stored on a primitive.
\<close>

fun changed_in_place :: "jsval \<Rightarrow> string \<Rightarrow> jsval \<Rightarrow> jsval" where
  "changed_in_place (JObj kd ps) k x = JObj kd (AList.update k x ps)"
| "changed_in_place v k x = v"

subsection \<open>The values the script writes\<close>

text \<open>Lines 8 to 12: the new \<^verbatim>\<open>entry\<close>.\<close>

definition dev_server_client :: string where
  "dev_server_client = ''webpack-dev-server/client?http://localhost:3000''"

definition hot_only_dev_server :: string where
  "hot_only_dev_server = ''webpack/hot/only-dev-server''"

definition app_entry :: string where
  "app_entry = ''../assets/js/app.js''"

definition entry :: jsval where
  "entry = JObj (Array [JStr dev_server_client, JStr hot_only_dev_server, JStr app_entry]) []"

text \<open>Line 15.\<close>

definition publicPath :: string where
  "publicPath = ''http://localhost:3000/assets/bundles/''"

text \<open>Lines 19 to 21: the three plugin instances, as the expressions that make them.\<close>

definition HotModuleReplacementPlugin :: jsval where
  "HotModuleReplacementPlugin = JObj (Instance ''webpack.HotModuleReplacementPlugin'' []) []"

definition NoEmitOnErrorsPlugin :: jsval where
  "NoEmitOnErrorsPlugin = JObj (Instance ''webpack.NoEmitOnErrorsPlugin'' []) []"

definition BundleTracker :: jsval where
  "BundleTracker =
     JObj (Instance ''BundleTracker''
       [JObj Plain [(''filename'', JStr ''./webpack-stats.json'')]]) []"

definition new_plugins :: "jsval list" where
  "new_plugins = [HotModuleReplacementPlugin, NoEmitOnErrorsPlugin, BundleTracker]"

text \<open>Line 23.\<close>

definition devtool :: string where
  "devtool = ''inline-source-map''"

text \<open>
  Lines 27 to 31: the rule. The source text of \<^verbatim>\<open>/\.jsx?$/\<close> starts with a backslash,
  character 0x5C.
\<close>

definition jsx_test :: string where
  "jsx_test = CHR 0x5C # ''.jsx?$''"

definition node_modules :: string where
  "node_modules = ''node_modules''"

definition jsx_rule :: jsval where
  "jsx_rule =
     JObj Plain
       [(''test'', JObj (RegExp jsx_test []) []),
        (''exclude'', JObj (RegExp node_modules []) []),
        (''loaders'', JObj (Array [JStr ''babel-loader'']) [])]"

subsection \<open>The two methods the script calls\<close>

text \<open>
  \<^verbatim>\<open>String.prototype.concat\<close> appends the text of its argument. The argument of the one
  call is the array of the three new plugin instances: an array is joined with commas,
  and an instance of a class that defines no \<^verbatim>\<open>toString\<close> prints as
  \<^verbatim>\<open>[object Object]\<close>.
\<close>

definition new_plugins_text :: string where
  "new_plugins_text = ''[object Object],[object Object],[object Object]''"

text \<open>
  \<^verbatim>\<open>p.concat([...])\<close> with the three new plugins (lines 18 to 22). On an array,
  \<^verbatim>\<open>Array.prototype.concat\<close> makes a new array of the elements of \<^verbatim>\<open>p\<close> followed by the
  elements of the argument; the properties stored on \<^verbatim>\<open>p\<close> are not copied, and one named
  \<^verbatim>\<open>concat\<close> hides the method (it is no function: TypeError). On a string the text is
  appended. \<^verbatim>\<open>undefined\<close> and \<^verbatim>\<open>null\<close> have no properties, every other value has no
  method \<^verbatim>\<open>concat\<close>: TypeError.
\<close>

fun concat_new_plugins :: "jsval \<Rightarrow> error + jsval" where
  "concat_new_plugins (JObj (Array xs) ps) =
     (if map_of ps ''concat'' = None then Inr (JObj (Array (xs @ new_plugins)) [])
      else Inl TypeError)"
| "concat_new_plugins (JStr s) = Inr (JStr (s @ new_plugins_text))"
| "concat_new_plugins v = Inl TypeError"

text \<open>
  \<^verbatim>\<open>r.push(x)\<close> (line 26), returning \<^verbatim>\<open>r\<close> as it is after the call (the script drops the
  new length that \<^verbatim>\<open>push\<close> returns). On an array the element is added last, in place.
  Every other value has no method \<^verbatim>\<open>push\<close>, and a stored property of that name hides
  the method of an array: TypeError.
\<close>

fun push :: "jsval \<Rightarrow> jsval \<Rightarrow> error + jsval" where
  "push (JObj (Array xs) ps) x =
     (if map_of ps ''push'' = None then Inr (JObj (Array (xs @ [x])) ps)
      else Inl TypeError)"
| "push v x = Inl TypeError"

subsection \<open>The script\<close>

text \<open>
  The five statements of lines 8 to 32, in order; the result is the value of
  \<^verbatim>\<open>module.exports\<close> at line 34. Each bound name is the value of the source expression
  of that name after the statement: \<^verbatim>\<open>config\<close>, \<^verbatim>\<open>config.output\<close>, \<^verbatim>\<open>config.plugins\<close>,
  \<^verbatim>\<open>config.module\<close>, \<^verbatim>\<open>config.module.rules\<close>.
\<close>

definition overlay :: "jsval \<Rightarrow> error + jsval" where
  "overlay config0 =
     and_then (set_prop config0 ''entry'' entry) (\<lambda>config1.
     and_then (get_prop config1 ''output'') (\<lambda>output.
     and_then (set_prop output ''publicPath'' (JStr publicPath)) (\<lambda>output'.
     let config2 = changed_in_place config1 ''output'' output' in
     and_then (get_prop config2 ''plugins'') (\<lambda>plugins.
     and_then (concat_new_plugins plugins) (\<lambda>plugins'.
     and_then (set_prop config2 ''plugins'' plugins') (\<lambda>config3.
     and_then (set_prop config3 ''devtool'' (JStr devtool)) (\<lambda>config4.
     and_then (get_prop config4 ''module'') (\<lambda>module.
     and_then (get_prop module ''rules'') (\<lambda>rules.
     and_then (push rules jsx_rule) (\<lambda>rules'.
     Inr (changed_in_place config4 ''module''
            (changed_in_place module ''rules'' rules'))))))))))))"

subsection \<open>Regular expressions of the rule\<close>







subsection \<open>Observing a configuration\<close>

text \<open>The property \<open>k\<close> stored on \<open>v\<close>, if \<open>v\<close> is an object that has one.\<close>

fun own_field :: "jsval \<Rightarrow> string \<Rightarrow> jsval option" where
  "own_field (JObj kd ps) k = map_of ps k"
| "own_field v k = None"

text \<open>\<^verbatim>\<open>v.a.b\<close> as stored properties.\<close>

definition own_field2 :: "jsval \<Rightarrow> string \<Rightarrow> string \<Rightarrow> jsval option" where
  "own_field2 v a b = (case own_field v a of None \<Rightarrow> None | Some w \<Rightarrow> own_field w b)"

text \<open>The elements of an array.\<close>

fun elements :: "jsval \<Rightarrow> jsval list option" where
  "elements (JObj (Array xs) ps) = Some xs"
| "elements v = None"

text \<open>A value that is an object: not \<^verbatim>\<open>undefined\<close>, \<^verbatim>\<open>null\<close>, a boolean, number or string.\<close>

fun is_object :: "jsval \<Rightarrow> bool" where
  "is_object (JObj kd ps) = True"
| "is_object v = False"


text \<open>\<^verbatim>\<open>v.a.b\<close> as the script would read it.\<close>

definition get_prop2 :: "jsval \<Rightarrow> string \<Rightarrow> string \<Rightarrow> error + jsval" where
  "get_prop2 v a b = and_then (get_prop v a) (\<lambda>w. get_prop w b)"

text \<open>
  The properties of the configuration after a run without exception, from the properties
  before it and the new values of \<^verbatim>\<open>output\<close>, \<^verbatim>\<open>plugins\<close> and \<^verbatim>\<open>module\<close>.
\<close>

definition overlay_props ::
  "jsval \<Rightarrow> jsval \<Rightarrow> jsval \<Rightarrow> (string \<times> jsval) list \<Rightarrow> (string \<times> jsval) list" where
  "overlay_props out' pl' m' ps =
     AList.update ''module'' m'
       (AList.update ''devtool'' (JStr devtool)
         (AList.update ''plugins'' pl'
           (AList.update ''output'' out'
             (AList.update ''entry'' entry ps))))"

subsection \<open>Configurations to run the script on\<close>

text \<open>
  A base configuration of the usual shape, with fields the script does not name
  (\<^verbatim>\<open>context\<close>, \<^verbatim>\<open>output.path\<close>, \<^verbatim>\<open>module.noParse\<close>), one plugin and one rule.
\<close>

definition base_config :: jsval where
  "base_config =
     JObj Plain
       [(''context'', JStr ''/srv/app''),
        (''entry'', JStr ''./assets/js/index''),
        (''output'', JObj Plain [(''path'', JStr ''/srv/app/assets/bundles/'')]),
        (''plugins'', JObj (Array [JObj (Instance ''webpack.ProvidePlugin'' []) []]) []),
        (''module'',
           JObj Plain
             [(''noParse'', JObj (RegExp ''jquery'' []) []),
              (''rules'', JObj (Array [JObj Plain [(''loader'', JStr ''css-loader'')]]) [])])]"

text \<open>What the script exports for it.\<close>

definition base_config_overlaid :: jsval where
  "base_config_overlaid =
     JObj Plain
       [(''context'', JStr ''/srv/app''),
        (''entry'', entry),
        (''output'',
           JObj Plain
             [(''path'', JStr ''/srv/app/assets/bundles/''),
              (''publicPath'', JStr publicPath)]),
        (''plugins'',
           JObj (Array (JObj (Instance ''webpack.ProvidePlugin'' []) [] # new_plugins)) []),
        (''module'',
           JObj Plain
             [(''noParse'', JObj (RegExp ''jquery'' []) []),
              (''rules'',
                 JObj (Array [JObj Plain [(''loader'', JStr ''css-loader'')], jsx_rule]) [])]),
        (''devtool'', JStr devtool)]"






definition config_without_plugins :: jsval where
  "config_without_plugins =
     JObj Plain
       [(''output'', JObj Plain []),
        (''module'', JObj Plain [(''rules'', JObj (Array []) [])])]"

section \<open>Properties of the script\<close>

subsection \<open>Sequencing and exceptions\<close>

lemma and_then_Inr [simp]: "and_then (Inr x) f = f x"
  by (simp add: and_then_def)

lemma and_then_Inl [simp]: "and_then (Inl e) f = Inl e"
  by (simp add: and_then_def)

lemma and_then_Inr_iff: "and_then m f = Inr y \<longleftrightarrow> (\<exists>x. m = Inr x \<and> f x = Inr y)"
  by (cases m) simp_all

lemma error_is_TypeError: "(e::error) = TypeError"
  by (cases e) simp

subsection \<open>Properties and methods\<close>

lemma own_field_get_prop: "own_field v k = Some w \<Longrightarrow> get_prop v k = Inr w"
  by (cases v) simp_all

lemma own_field_is_object: "own_field v k = Some w \<Longrightarrow> is_object v"
  by (cases v) simp_all

lemma own_field2_get_prop:
  "get_prop v a = Inr w \<Longrightarrow> own_field2 v a j = own_field w j"
  by (cases v) (auto simp add: own_field2_def split: option.splits)


lemma set_prop_again: "set_prop v k x = Inr v' \<Longrightarrow> set_prop v' k x = Inr v'"
  by (cases v) auto


lemma own_field_changed_same:
  "is_object v \<Longrightarrow> own_field (changed_in_place v k x) k = Some x"
  by (cases v) (simp_all add: update_conv')

lemma get_prop_changed_in_place:
  "get_prop m k = Inr r \<Longrightarrow> r \<noteq> JUndefined \<Longrightarrow> get_prop (changed_in_place m k x) k = Inr x"
  by (cases m) (auto simp add: update_conv')

lemma concat_new_plugins_elements:
  "concat_new_plugins p = Inr p' \<Longrightarrow> elements p = Some xs \<Longrightarrow>
     p' = JObj (Array (xs @ new_plugins)) []"
  by (cases p rule: concat_new_plugins.cases) (auto split: if_splits)


lemma concat_again: "concat_new_plugins p = Inr p' \<Longrightarrow> \<exists>p''. concat_new_plugins p' = Inr p''"
  by (cases p rule: concat_new_plugins.cases) (auto split: if_splits)

lemma push_elements:
  "push r x = Inr r' \<Longrightarrow> elements r = Some xs \<Longrightarrow> elements r' = Some (xs @ [x])"
  by (cases "(r, x)" rule: push.cases) (auto split: if_splits)


lemma push_again: "push r x = Inr r' \<Longrightarrow> \<exists>r''. push r' x = Inr r''"
  by (cases "(r, x)" rule: push.cases) (auto split: if_splits)

lemma push_defined: "push r x = Inr r' \<Longrightarrow> r \<noteq> JUndefined"
  by (cases "(r, x)" rule: push.cases) (auto split: if_splits)

subsection \<open>The result of a run in closed form\<close>

lemma map_of_overlay_props:
  "map_of (overlay_props out' pl' m' ps) k =
     (if k = ''module'' then Some m'
      else if k = ''devtool'' then Some (JStr devtool)
      else if k = ''plugins'' then Some pl'
      else if k = ''output'' then Some out'
      else if k = ''entry'' then Some entry
      else map_of ps k)"
  by (simp add: overlay_props_def update_conv')

text \<open>
  On an object the first statement cannot throw, and no later statement reads what an
  earlier one wrote: each of \<^verbatim>\<open>output\<close>, \<^verbatim>\<open>plugins\<close> and \<^verbatim>\<open>module\<close> is read as it was in
  the base configuration.
\<close>

lemma overlay_JObj:
  "overlay (JObj kd ps) =
     and_then (get_prop (JObj kd ps) ''output'') (\<lambda>out.
     and_then (set_prop out ''publicPath'' (JStr publicPath)) (\<lambda>out'.
     and_then (get_prop (JObj kd ps) ''plugins'') (\<lambda>pl.
     and_then (concat_new_plugins pl) (\<lambda>pl'.
     and_then (get_prop (JObj kd ps) ''module'') (\<lambda>m.
     and_then (get_prop m ''rules'') (\<lambda>r.
     and_then (push r jsx_rule) (\<lambda>r'.
     Inr (JObj kd (overlay_props out' pl' (changed_in_place m ''rules'' r') ps)))))))))"
  by (simp add: overlay_def overlay_props_def Let_def update_conv')

lemma overlay_not_object: "\<not> is_object c \<Longrightarrow> overlay c = Inl TypeError"
  by (cases c) (simp_all add: overlay_def)

lemma overlay_Inr_iff:
  "overlay c = Inr c' \<longleftrightarrow>
     (\<exists>kd ps out out' pl pl' m r r'.
        c = JObj kd ps \<and>
        get_prop c ''output'' = Inr out \<and>
        set_prop out ''publicPath'' (JStr publicPath) = Inr out' \<and>
        get_prop c ''plugins'' = Inr pl \<and>
        concat_new_plugins pl = Inr pl' \<and>
        get_prop c ''module'' = Inr m \<and>
        get_prop m ''rules'' = Inr r \<and>
        push r jsx_rule = Inr r' \<and>
        c' = JObj kd (overlay_props out' pl' (changed_in_place m ''rules'' r') ps))"
proof (cases "is_object c")
  case False
  then show ?thesis
    by (cases c) (simp_all add: overlay_not_object)
next
  case True
  then obtain kd ps where c: "c = JObj kd ps"
    by (cases c) simp_all
  show ?thesis
    unfolding c overlay_JObj and_then_Inr_iff
    by (simp only: jsval.inject sum.inject ex_simps simp_thms) blast
qed

lemma overlayE:
  assumes "overlay c = Inr c'"
  obtains kd ps out out' pl pl' m r r' where
    "c = JObj kd ps"
    "get_prop c ''output'' = Inr out"
    "set_prop out ''publicPath'' (JStr publicPath) = Inr out'"
    "get_prop c ''plugins'' = Inr pl"
    "concat_new_plugins pl = Inr pl'"
    "get_prop c ''module'' = Inr m"
    "get_prop m ''rules'' = Inr r"
    "push r jsx_rule = Inr r'"
    "c' = JObj kd (overlay_props out' pl' (changed_in_place m ''rules'' r') ps)"
  using assms unfolding overlay_Inr_iff by blast

lemma overlay_fails_iff: "overlay c = Inl TypeError \<longleftrightarrow> (\<forall>c'. overlay c \<noteq> Inr c')"
  by (cases "overlay c") (simp_all add: error_is_TypeError)

subsection \<open>What a run leaves in each field\<close>

lemma overlay_entry: "overlay c = Inr c' \<Longrightarrow> get_prop c' ''entry'' = Inr entry"
  by (erule overlayE) (simp add: map_of_overlay_props)

lemma overlay_devtool: "overlay c = Inr c' \<Longrightarrow> get_prop c' ''devtool'' = Inr (JStr devtool)"
  by (erule overlayE) (simp add: map_of_overlay_props)

lemma overlay_plugins:
  assumes "overlay c = Inr c'"
    and "own_field c ''plugins'' = Some p"
    and "elements p = Some xs"
  shows "own_field c' ''plugins'' = Some (JObj (Array (xs @ new_plugins)) [])"
proof -
  from assms(1) obtain kd ps out' pl pl' m' where
    c: "c = JObj kd ps" and pl: "get_prop c ''plugins'' = Inr pl"
    and pl': "concat_new_plugins pl = Inr pl'"
    and c': "c' = JObj kd (overlay_props out' pl' m' ps)"
    by (rule overlayE)
  from pl assms(2) have "pl = p"
    by (simp add: own_field_get_prop)
  with pl' assms(3) have "pl' = JObj (Array (xs @ new_plugins)) []"
    by (simp add: concat_new_plugins_elements)
  then show ?thesis
    by (simp add: c' map_of_overlay_props)
qed

lemma overlay_rules:
  assumes "overlay c = Inr c'"
    and "own_field2 c ''module'' ''rules'' = Some r"
    and "elements r = Some xs"
  shows "\<exists>r'. own_field2 c' ''module'' ''rules'' = Some r' \<and> elements r' = Some (xs @ [jsx_rule])"
proof -
  from assms(1) obtain kd ps out' pl' m r0 r' where
    c: "c = JObj kd ps" and m: "get_prop c ''module'' = Inr m"
    and r0: "get_prop m ''rules'' = Inr r0"
    and r': "push r0 jsx_rule = Inr r'"
    and c': "c' = JObj kd (overlay_props out' pl' (changed_in_place m ''rules'' r') ps)"
    by (rule overlayE)
  have mr: "own_field m ''rules'' = Some r"
    using assms(2) by (simp add: own_field2_get_prop [OF m])
  then have "r0 = r"
    using r0 by (simp add: own_field_get_prop)
  with r' assms(3) have el: "elements r' = Some (xs @ [jsx_rule])"
    by (simp add: push_elements)
  have "get_prop c' ''module'' = Inr (changed_in_place m ''rules'' r')"
    by (simp add: c' map_of_overlay_props)
  then have "own_field2 c' ''module'' ''rules'' = Some r'"
    using own_field_is_object [OF mr] by (simp add: own_field2_get_prop own_field_changed_same)
  with el show ?thesis
    by simp
qed

text \<open>A run that did not throw can be followed by a second one, which leaves
  \<^verbatim>\<open>output\<close> as the first one left it.\<close>

lemma overlay_again:
  assumes "overlay c = Inr c'"
  shows "\<exists>c''. overlay c' = Inr c'' \<and> get_prop c'' ''output'' = get_prop c' ''output''"
proof -
  from assms obtain kd ps out out' pl pl' m r r' where
    c: "c = JObj kd ps"
    and out': "set_prop out ''publicPath'' (JStr publicPath) = Inr out'"
    and pl': "concat_new_plugins pl = Inr pl'"
    and r: "get_prop m ''rules'' = Inr r"
    and r': "push r jsx_rule = Inr r'"
    and c': "c' = JObj kd (overlay_props out' pl' (changed_in_place m ''rules'' r') ps)"
    by (rule overlayE)
  from pl' obtain pl'' where pl'': "concat_new_plugins pl' = Inr pl''"
    using concat_again by blast
  from r' obtain r'' where r'': "push r' jsx_rule = Inr r''"
    using push_again by blast
  have r2: "get_prop (changed_in_place m ''rules'' r') ''rules'' = Inr r'"
    using r push_defined [OF r'] by (rule get_prop_changed_in_place)
  let ?m' = "changed_in_place m ''rules'' r'"
  let ?ps' = "overlay_props out' pl' ?m' ps"
  let ?c'' = "JObj kd (overlay_props out' pl'' (changed_in_place ?m' ''rules'' r'') ?ps')"
  have "overlay c' = Inr ?c''"
    unfolding overlay_Inr_iff c'
    using set_prop_again [OF out'] pl'' r2 r''
    by (simp add: map_of_overlay_props)
  moreover have "get_prop ?c'' ''output'' = get_prop c' ''output''"
    by (simp add: c' map_of_overlay_props)
  ultimately show ?thesis
    by blast
qed

subsection \<open>When a run throws\<close>

lemma overlay_needs:
  assumes "overlay c = Inr c'"
  shows "own_field c ''output'' \<noteq> None" and "own_field c ''plugins'' \<noteq> None"
    and "own_field2 c ''module'' ''rules'' \<noteq> None"
proof -
  from assms obtain kd ps out out' pl pl' m r r' where
    c: "c = JObj kd ps"
    and out: "get_prop c ''output'' = Inr out"
    and out': "set_prop out ''publicPath'' (JStr publicPath) = Inr out'"
    and pl: "get_prop c ''plugins'' = Inr pl"
    and pl': "concat_new_plugins pl = Inr pl'"
    and m: "get_prop c ''module'' = Inr m"
    and r: "get_prop m ''rules'' = Inr r"
    and r': "push r jsx_rule = Inr r'"
    by (rule overlayE)
  from out out' show "own_field c ''output'' \<noteq> None"
    by (auto simp add: c split: option.splits)
  from pl pl' show "own_field c ''plugins'' \<noteq> None"
    by (auto simp add: c split: option.splits)
  from r r' have "own_field m ''rules'' \<noteq> None"
    by (cases m) (auto split: option.splits)
  then show "own_field2 c ''module'' ''rules'' \<noteq> None"
    by (simp add: own_field2_get_prop [OF m])
qed


subsection \<open>The patterns of the rule\<close>








subsection \<open>Runs on the example configurations\<close>

lemma overlay_base_config: "overlay base_config = Inr base_config_overlaid"
  by (simp add: overlay_JObj base_config_def base_config_overlaid_def overlay_props_def)


lemma base_config_plugins:
  "own_field base_config ''plugins'' =
     Some (JObj (Array [JObj (Instance ''webpack.ProvidePlugin'' []) []]) [])"
  by (simp add: base_config_def)

lemma base_config_rules:
  "own_field2 base_config ''module'' ''rules'' =
     Some (JObj (Array [JObj Plain [(''loader'', JStr ''css-loader'')]]) [])"
  by (simp add: base_config_def own_field2_def)


section \<open>The claims of the specification\<close>














text \<open>
  C7. The script is not idempotent. For every base configuration whose \<^verbatim>\<open>plugins\<close> is an
  array of \<open>p\<close> elements and whose \<^verbatim>\<open>module.rules\<close> is an array of \<open>r\<close> elements, a run that
  returns can be followed by a second run on its result; the second result differs from
  the first, its \<^verbatim>\<open>plugins\<close> has \<open>p + 6\<close> elements (the three new plugins twice), its
  \<^verbatim>\<open>module.rules\<close> has \<open>r + 2\<close> elements (the new rule twice), and its \<^verbatim>\<open>entry\<close>,
  \<^verbatim>\<open>output.publicPath\<close> and \<^verbatim>\<open>devtool\<close> are those of the first result.
\<close>

theorem overlay_twice:
  assumes "overlay c = Inr c'"
    and "own_field c ''plugins'' = Some p" and "elements p = Some xs"
    and "own_field2 c ''module'' ''rules'' = Some r" and "elements r = Some rs"
  shows "\<exists>c'' p'' ys r'' zs.
           overlay c' = Inr c'' \<and> c'' \<noteq> c' \<and>
           own_field c'' ''plugins'' = Some p'' \<and> elements p'' = Some ys \<and>
           length ys = length xs + 6 \<and> ys = xs @ new_plugins @ new_plugins \<and>
           own_field2 c'' ''module'' ''rules'' = Some r'' \<and> elements r'' = Some zs \<and>
           length zs = length rs + 2 \<and> zs = rs @ [jsx_rule, jsx_rule] \<and>
           get_prop c'' ''entry'' = get_prop c' ''entry'' \<and>
           get_prop2 c'' ''output'' ''publicPath'' = get_prop2 c' ''output'' ''publicPath'' \<and>
           get_prop c'' ''devtool'' = get_prop c' ''devtool''"
proof -
  from overlay_again [OF assms(1)] obtain c'' where
    c'': "overlay c' = Inr c''" and out: "get_prop c'' ''output'' = get_prop c' ''output''"
    by blast
  have p': "own_field c' ''plugins'' = Some (JObj (Array (xs @ new_plugins)) [])"
    using assms(1,2,3) by (rule overlay_plugins)
  have p'': "own_field c'' ''plugins'' = Some (JObj (Array ((xs @ new_plugins) @ new_plugins)) [])"
    using c'' p' by (rule overlay_plugins) simp
  from overlay_rules [OF assms(1,4,5)] obtain r' where
    r': "own_field2 c' ''module'' ''rules'' = Some r'" "elements r' = Some (rs @ [jsx_rule])"
    by blast
  from overlay_rules [OF c'' r'] obtain r'' where
    r'': "own_field2 c'' ''module'' ''rules'' = Some r''"
      "elements r'' = Some ((rs @ [jsx_rule]) @ [jsx_rule])"
    by blast
  have "c'' \<noteq> c'"
    using p' p'' by (auto simp add: new_plugins_def)
  moreover have "get_prop c'' ''entry'' = get_prop c' ''entry''"
    by (simp add: overlay_entry [OF assms(1)] overlay_entry [OF c''])
  moreover have "get_prop c'' ''devtool'' = get_prop c' ''devtool''"
    by (simp add: overlay_devtool [OF assms(1)] overlay_devtool [OF c''])
  moreover have "get_prop2 c'' ''output'' ''publicPath'' = get_prop2 c' ''output'' ''publicPath''"
    by (simp add: get_prop2_def out)
  ultimately show ?thesis
    using c'' p'' r'' by (simp add: new_plugins_def)
qed

theorem overlay_twice_witness:
  "overlay base_config = Inr base_config_overlaid \<and>
   (\<exists>c'' p'' ys r'' zs.
      overlay base_config_overlaid = Inr c'' \<and> c'' \<noteq> base_config_overlaid \<and>
      own_field c'' ''plugins'' = Some p'' \<and> elements p'' = Some ys \<and>
      length ys = 7 \<and>
      own_field2 c'' ''module'' ''rules'' = Some r'' \<and> elements r'' = Some zs \<and>
      length zs = 3 \<and>
      get_prop c'' ''entry'' = Inr entry \<and>
      get_prop2 c'' ''output'' ''publicPath'' = Inr (JStr publicPath) \<and>
      get_prop c'' ''devtool'' = Inr (JStr devtool))"
proof -
  have pl: "elements (JObj (Array [JObj (Instance ''webpack.ProvidePlugin'' []) []]) []) =
      Some [JObj (Instance ''webpack.ProvidePlugin'' []) []]"
    by simp
  have rl: "elements (JObj (Array [JObj Plain [(''loader'', JStr ''css-loader'')]]) []) =
      Some [JObj Plain [(''loader'', JStr ''css-loader'')]]"
    by simp
  have first: "get_prop base_config_overlaid ''entry'' = Inr entry"
    "get_prop2 base_config_overlaid ''output'' ''publicPath'' = Inr (JStr publicPath)"
    "get_prop base_config_overlaid ''devtool'' = Inr (JStr devtool)"
    by (simp_all add: base_config_overlaid_def get_prop2_def)
  from overlay_twice [OF overlay_base_config base_config_plugins pl base_config_rules rl]
  show ?thesis
    unfolding first using overlay_base_config by (fastforce simp add: new_plugins_def)
qed




text \<open>
  C10. If the base configuration has no \<^verbatim>\<open>plugins\<close> field, the script throws a TypeError:
  \<^verbatim>\<open>concat\<close> is looked up on \<^verbatim>\<open>undefined\<close>.
\<close>

theorem missing_plugins_fails:
  "own_field c ''plugins'' = None \<Longrightarrow> overlay c = Inl TypeError"
  using overlay_needs(2) [of c] unfolding overlay_fails_iff by blast

theorem missing_plugins_fails_witness:
  "own_field config_without_plugins ''plugins'' = None \<and>
   own_field config_without_plugins ''output'' = Some (JObj Plain []) \<and>
   own_field2 config_without_plugins ''module'' ''rules'' = Some (JObj (Array []) []) \<and>
   overlay config_without_plugins = Inl TypeError"
proof -
  have "own_field config_without_plugins ''plugins'' = None"
    by (simp add: config_without_plugins_def)
  from this missing_plugins_fails [OF this] show ?thesis
    by (simp add: config_without_plugins_def own_field2_def)
qed

end
